theory Spec2Isabelle
  imports
    Complex_Main
    "HOL-Library.Char_ord"
    "HOL-Library.List_Lexorder"
    "HOL-Library.Product_Lexorder"
begin

section \<open>The waste dashboard of \<^verbatim>\<open>app.py\<close>: data model\<close>

text \<open>
  The script works on pandas data frames. A frame is modelled as the list of its rows, in
  row order. After cleaning, a row has the three columns \<^verbatim>\<open>Year\<close>,
  \<^verbatim>\<open>Category\<close> and \<^verbatim>\<open>Weight (lbs)\<close>. The grouped frame and the
  reindexed frame have exactly these columns too (after \<^verbatim>\<open>reset_index\<close>), so one
  record type serves for all of them.

  Weights are 64-bit floats in the script. They are modelled as real numbers: sums are
  exact, and the special values of the float format (infinities, rounding) are not part of
  the model. Years are Python integers.
\<close>

record row =
  Year :: int
  Category :: string
  Weight :: real

type_synonym frame = "row list"

type_synonym key = "int \<times> string"

definition key_of :: "row \<Rightarrow> key" where
  "key_of r = (Year r, Category r)"

definition mk_row :: "key \<Rightarrow> real \<Rightarrow> row" where
  "mk_row k w = \<lparr>Year = fst k, Category = snd k, Weight = w\<rparr>"

datatype error = AttributeError | ValueError

section \<open>Loader and cleaner (lines 9 to 16)\<close>

text \<open>
  Line 11 reads the file with \<^verbatim>\<open>pd.read_csv\<close>. The model starts from the frame
  that call returns. A cell of that frame is a number (a column of numeric type), a text
  (a column of object type) or the missing marker. Of each row only the three columns the
  script names are kept.
\<close>

datatype cell = NaN | Num real | Str string

record raw_row =
  raw_Category :: cell
  raw_Weight :: cell
  raw_Year :: cell

type_synonym raw_frame = "raw_row list"

subsection \<open>Python's string methods on ASCII text\<close>

text \<open>
  \<^verbatim>\<open>str.strip()\<close> removes the white space at both ends; \<^verbatim>\<open>str.title()\<close>
  walks the text once, writing a cased character in lower case if the character before it
  was cased and in upper case otherwise. Both are modelled on the ASCII range: a byte above
  127 is neither white space nor a cased letter here.
\<close>

definition is_space :: "char \<Rightarrow> bool" where
  "is_space c =
     (c \<in> set [CHR 0x09, CHR 0x0A, CHR 0x0B, CHR 0x0C, CHR 0x0D,
               CHR 0x1C, CHR 0x1D, CHR 0x1E, CHR 0x1F, CHR 0x20])"

definition str_strip :: "string \<Rightarrow> string" where
  "str_strip s = rev (dropWhile is_space (rev (dropWhile is_space s)))"

definition is_lower :: "char \<Rightarrow> bool" where
  "is_lower c = (CHR ''a'' \<le> c \<and> c \<le> CHR ''z'')"

definition is_upper :: "char \<Rightarrow> bool" where
  "is_upper c = (CHR ''A'' \<le> c \<and> c \<le> CHR ''Z'')"

definition to_upper :: "char \<Rightarrow> char" where
  "to_upper c = (if is_lower c then char_of (of_char c - (32::nat)) else c)"

definition to_lower :: "char \<Rightarrow> char" where
  "to_lower c = (if is_upper c then char_of (of_char c + (32::nat)) else c)"

fun title_from :: "bool \<Rightarrow> string \<Rightarrow> string" where
  "title_from previous_is_cased [] = []"
| "title_from previous_is_cased (c # cs) =
     (if previous_is_cased then to_lower c else to_upper c)
       # title_from (is_lower c \<or> is_upper c) cs"

definition str_title :: "string \<Rightarrow> string" where
  "str_title s = title_from False s"

text \<open>
  \<^verbatim>\<open>int(s)\<close> on a text, which is what the integer cast of an object column applies
  to each cell: optional white space around an optional sign and decimal digits, where
  single underscores may separate digits. Anything else raises \<^verbatim>\<open>ValueError\<close>.
\<close>

definition is_digit :: "char \<Rightarrow> bool" where
  "is_digit c = (CHR ''0'' \<le> c \<and> c \<le> CHR ''9'')"

definition digit_value :: "char \<Rightarrow> nat" where
  "digit_value c = of_char c - of_char CHR ''0''"

fun parse_digits :: "nat \<Rightarrow> bool \<Rightarrow> string \<Rightarrow> nat option" where
  "parse_digits acc after_digit [] = (if after_digit then Some acc else None)"
| "parse_digits acc after_digit (c # cs) =
     (if is_digit c then parse_digits (10 * acc + digit_value c) True cs
      else if c = CHR ''_'' \<and> after_digit then parse_digits acc False cs
      else None)"

definition py_int :: "string \<Rightarrow> int option" where
  "py_int s =
     (case str_strip s of
        CHR ''-'' # ds \<Rightarrow> map_option (\<lambda>n. - int n) (parse_digits 0 False ds)
      | CHR ''+'' # ds \<Rightarrow> map_option int (parse_digits 0 False ds)
      | ds \<Rightarrow> map_option int (parse_digits 0 False ds))"

text \<open>The integer cast of a number drops the fraction, rounding towards zero.\<close>

definition float_to_int :: "real \<Rightarrow> int" where
  "float_to_int x = (if 0 \<le> x then \<lfloor>x\<rfloor> else \<lceil>x\<rceil>)"

subsection \<open>The steps of \<^verbatim>\<open>load_data\<close>\<close>

text \<open>
  Line 12: \<^verbatim>\<open>df["Category"].str.strip().str.title()\<close>. The \<^verbatim>\<open>.str\<close>
  accessor exists on a column of object type only; on a numeric column the script stops
  with \<^verbatim>\<open>AttributeError\<close>. A column read from a file is of object type when the
  frame has no rows or when the column holds at least one text. Under the accessor a cell
  that is not a text becomes the missing marker.
\<close>

definition has_str_accessor :: "cell list \<Rightarrow> bool" where
  "has_str_accessor col =
     (col = [] \<or> list_ex (\<lambda>c. case c of Str s \<Rightarrow> True | _ \<Rightarrow> False) col)"

definition normalize_category :: "cell \<Rightarrow> string option" where
  "normalize_category c =
     (case c of Str s \<Rightarrow> Some (str_title (str_strip s)) | _ \<Rightarrow> None)"

text \<open>
  Line 13: \<^verbatim>\<open>pd.to_numeric(df["Weight (lbs)"], errors="coerce")\<close>. A number stays,
  a text is handed to the library's parser of numeric literals, and a text the parser
  rejects becomes the missing marker. The parser is a parameter of the model.
\<close>

definition to_numeric :: "(string \<Rightarrow> real option) \<Rightarrow> cell \<Rightarrow> real option" where
  "to_numeric parse c =
     (case c of NaN \<Rightarrow> None | Num x \<Rightarrow> Some x | Str s \<Rightarrow> parse s)"

text \<open>
  Line 14: \<^verbatim>\<open>df.dropna(subset=["Weight (lbs)", "Year", "Category"])\<close> keeps the rows
  in which none of the three cells is the missing marker. The \<^verbatim>\<open>Year\<close> column has
  not been coerced: a text in it is not a missing marker and stays.
\<close>

record kept_row =
  kept_Category :: string
  kept_Weight :: real
  kept_Year :: cell

definition dropna_row :: "(string \<Rightarrow> real option) \<Rightarrow> raw_row \<Rightarrow> kept_row option" where
  "dropna_row parse r =
     (case (to_numeric parse (raw_Weight r), raw_Year r, normalize_category (raw_Category r)) of
        (Some w, Num y, Some c) \<Rightarrow>
          Some \<lparr>kept_Category = c, kept_Weight = w, kept_Year = Num y\<rparr>
      | (Some w, Str y, Some c) \<Rightarrow>
          Some \<lparr>kept_Category = c, kept_Weight = w, kept_Year = Str y\<rparr>
      | _ \<Rightarrow> None)"

text \<open>
  Line 15: \<^verbatim>\<open>df["Year"].astype(int)\<close>. The cast raises \<^verbatim>\<open>ValueError\<close> on
  the first cell it cannot convert, and then \<^verbatim>\<open>load_data\<close> returns nothing.
\<close>

definition astype_int :: "cell \<Rightarrow> error + int" where
  "astype_int c =
     (case c of
        Num x \<Rightarrow> Inr (float_to_int x)
      | Str s \<Rightarrow> (case py_int s of Some i \<Rightarrow> Inr i | None \<Rightarrow> Inl ValueError)
      | NaN \<Rightarrow> Inl ValueError)"

definition cast_year :: "kept_row \<Rightarrow> error + row" where
  "cast_year k =
     (case astype_int (kept_Year k) of
        Inl e \<Rightarrow> Inl e
      | Inr y \<Rightarrow> Inr \<lparr>Year = y, Category = kept_Category k, Weight = kept_Weight k\<rparr>)"

fun collect :: "(error + 'a) list \<Rightarrow> error + 'a list" where
  "collect [] = Inr []"
| "collect (Inl e # rs) = Inl e"
| "collect (Inr x # rs) =
     (case collect rs of Inl e \<Rightarrow> Inl e | Inr xs \<Rightarrow> Inr (x # xs))"

definition load_data :: "(string \<Rightarrow> real option) \<Rightarrow> raw_frame \<Rightarrow> error + frame" where
  "load_data parse raw =
     (if has_str_accessor (map raw_Category raw)
      then collect (map cast_year (List.map_filter (dropna_row parse) raw))
      else Inl AttributeError)"

text \<open>A raw row survives line 14 when none of its three cells is missing after coercion.\<close>

definition complete :: "(string \<Rightarrow> real option) \<Rightarrow> raw_row \<Rightarrow> bool" where
  "complete parse r =
     (to_numeric parse (raw_Weight r) \<noteq> None \<and> raw_Year r \<noteq> NaN
      \<and> normalize_category (raw_Category r) \<noteq> None)"


section \<open>Aggregator and reindexer (lines 21 to 52)\<close>

text \<open>
  Line 21: \<^verbatim>\<open>df.groupby(["Year", "Category"])["Weight (lbs)"].sum().reset_index()\<close>.
  One row per distinct key of the frame, the keys in ascending order (pandas sorts the
  group keys, tuples compared lexicographically and strings by code point), the weight
  being the sum of the weights of the rows of the group.
\<close>

definition group_weight :: "frame \<Rightarrow> key \<Rightarrow> real" where
  "group_weight df k = sum_list (map Weight (filter (\<lambda>r. key_of r = k) df))"

definition df_grouped :: "frame \<Rightarrow> frame" where
  "df_grouped df = map (\<lambda>k. mk_row k (group_weight df k)) (sort (remdups (map key_of df)))"

text \<open>Lines 24 and 25: the fixed year axis and the options of the category control.\<close>

definition years_full :: "int list" where
  "years_full = [2005..2025]"


text \<open>
  Lines 45 to 48: \<^verbatim>\<open>MultiIndex.from_product([range(min_year, max_year + 1),
  selected_categories])\<close>. The product enumerates the first level outermost. A Python
  range whose start exceeds its end is empty, as is \<open>[i..j]\<close> for \<open>j < i\<close>.
\<close>

definition full_index :: "int \<Rightarrow> int \<Rightarrow> string list \<Rightarrow> key list" where
  "full_index min_year max_year selected_categories =
     List.product [min_year..max_year] selected_categories"

text \<open>
  Lines 50 to 52: \<^verbatim>\<open>set_index\<close>, \<^verbatim>\<open>reindex(full_index, fill_value=0)\<close>,
  \<^verbatim>\<open>reset_index\<close>. Reindexing looks every key of the target index up in the
  frame, in the order of the target, and substitutes the fill value for an absent key.
  pandas refuses to reindex a frame whose own index has duplicate labels; that refusal is
  the error branch.
\<close>

definition lookup_weight :: "frame \<Rightarrow> key \<Rightarrow> real" where
  "lookup_weight df k =
     (case find (\<lambda>r. key_of r = k) df of Some r \<Rightarrow> Weight r | None \<Rightarrow> 0)"

definition reindex :: "key list \<Rightarrow> frame \<Rightarrow> error + frame" where
  "reindex idx df =
     (if distinct (map key_of df)
      then Inr (map (\<lambda>k. mk_row k (lookup_weight df k)) idx)
      else Inl ValueError)"

definition filtered_df :: "frame \<Rightarrow> int \<Rightarrow> int \<Rightarrow> string list \<Rightarrow> error + frame" where
  "filtered_df df min_year max_year selected_categories =
     reindex (full_index min_year max_year selected_categories) (df_grouped df)"

section \<open>Presentation derivations (lines 54 to 112)\<close>

text \<open>
  Line 62: \<^verbatim>\<open>filtered_df.groupby("Category")["Weight (lbs)"].sum().reset_index()\<close>,
  the category totals behind the pie chart: one row per category of the table, the
  categories in ascending order.
\<close>

definition agg_pie :: "frame \<Rightarrow> (string \<times> real) list" where
  "agg_pie tbl =
     map (\<lambda>c. (c, sum_list (map Weight (filter (\<lambda>r. Category r = c) tbl))))
       (sort (remdups (map Category tbl)))"

text \<open>
  The charts and the table are drawn by the plotting library. The script hands the pie
  chart the category totals, and the bar chart, the line chart, the dot plot and the table
  the reindexed frame itself (lines 68, 83, 97 and 112). The record holds the data each
  view receives.
\<close>

record views =
  pie_data :: "(string \<times> real) list"
  bar_data :: frame
  line_data :: frame
  dot_data :: frame
  table_data :: frame

definition views_of :: "frame \<Rightarrow> views" where
  "views_of tbl =
     \<lparr>pie_data = agg_pie tbl, bar_data = tbl, line_data = tbl, dot_data = tbl,
      table_data = tbl\<rparr>"

definition dashboard :: "frame \<Rightarrow> int \<Rightarrow> int \<Rightarrow> string list \<Rightarrow> error + views" where
  "dashboard df min_year max_year selected_categories =
     (case filtered_df df min_year max_year selected_categories of
        Inl e \<Rightarrow> Inl e
      | Inr tbl \<Rightarrow> Inr (views_of tbl))"

section \<open>Sample inputs\<close>

text \<open>The clean records of the worked example of the specification.\<close>

definition example_records :: frame where
  "example_records =
     [\<lparr>Year = 2020, Category = ''Paper'', Weight = 10\<rparr>,
      \<lparr>Year = 2020, Category = ''Paper'', Weight = 5\<rparr>,
      \<lparr>Year = 2021, Category = ''Glass'', Weight = 3\<rparr>]"


text \<open>A file of one record whose year is a text that is no integer.\<close>

definition text_year_raw :: raw_frame where
  "text_year_raw =
     [\<lparr>raw_Category = Str ''Paper'', raw_Weight = Num 10, raw_Year = Str ''abc''\<rparr>]"


section \<open>Properties of the aggregator\<close>

lemma key_of_mk_row [simp]: "key_of (mk_row k w) = k"
  by (simp add: key_of_def mk_row_def)

lemma Weight_mk_row [simp]: "Weight (mk_row k w) = w"
  by (simp add: mk_row_def)

lemma Category_mk_row [simp]: "Category (mk_row k w) = snd k"
  by (simp add: mk_row_def)

lemma Year_mk_row [simp]: "Year (mk_row k w) = fst k"
  by (simp add: mk_row_def)

lemma keys_df_grouped: "map key_of (df_grouped df) = sort (remdups (map key_of df))"
  by (simp add: df_grouped_def comp_def)

lemma distinct_df_grouped: "distinct (map key_of (df_grouped df))"
  by (simp add: keys_df_grouped)

lemma filtered_df_eq:
  "filtered_df df y0 y1 cs =
     Inr (map (\<lambda>k. mk_row k (lookup_weight (df_grouped df) k)) (full_index y0 y1 cs))"
  by (simp add: filtered_df_def reindex_def distinct_df_grouped)

lemma find_map_mk_row:
  "find (\<lambda>r. key_of r = k) (map (\<lambda>k. mk_row k (g k)) ks) =
     (if k \<in> set ks then Some (mk_row k (g k)) else None)"
  by (induction ks) auto

lemma group_weight_absent: "k \<notin> set (map key_of df) \<Longrightarrow> group_weight df k = 0"
proof -
  assume "k \<notin> set (map key_of df)"
  then have "filter (\<lambda>r. key_of r = k) df = []"
    by (auto simp: filter_empty_conv)
  then show ?thesis by (simp add: group_weight_def)
qed

lemma lookup_weight_df_grouped: "lookup_weight (df_grouped df) k = group_weight df k"
  by (simp add: lookup_weight_def df_grouped_def find_map_mk_row group_weight_absent)

lemma filtered_df_rows:
  "filtered_df df y0 y1 cs = Inr (map (\<lambda>k. mk_row k (group_weight df k)) (full_index y0 y1 cs))"
  by (simp add: filtered_df_eq lookup_weight_df_grouped)









lemma product_Nil_right: "List.product xs [] = []"
  by (induction xs) simp_all


text \<open>The worked example of the specification, computed through every step.\<close>

lemma worked_example:
  "filtered_df example_records 2020 2021 [''Paper'', ''Glass''] =
     Inr [\<lparr>Year = 2020, Category = ''Paper'', Weight = 15\<rparr>,
          \<lparr>Year = 2020, Category = ''Glass'', Weight = 0\<rparr>,
          \<lparr>Year = 2021, Category = ''Paper'', Weight = 0\<rparr>,
          \<lparr>Year = 2021, Category = ''Glass'', Weight = 3\<rparr>]"
  by code_simp

section \<open>Properties of the loader\<close>


lemma dropna_row_Some:
  assumes "dropna_row parse r = Some k"
  shows "complete parse r"
    and "normalize_category (raw_Category r) = Some (kept_Category k)"
    and "to_numeric parse (raw_Weight r) = Some (kept_Weight k)"
    and "raw_Year r = kept_Year k"
  using assms
  by (auto simp: dropna_row_def complete_def split: option.splits cell.splits)




lemma numeric_years_cast:
  assumes "\<forall>r \<in> set raw. \<exists>y. raw_Year r = Num y \<or> raw_Year r = NaN"
  shows "\<exists>df. collect (map cast_year (List.map_filter (dropna_row parse) raw)) = Inr df"
  using assms
proof (induction raw)
  case Nil
  then show ?case by simp
next
  case (Cons a raw)
  then obtain df where df: "collect (map cast_year (List.map_filter (dropna_row parse) raw)) = Inr df"
    by auto
  show ?case
  proof (cases "dropna_row parse a")
    case None
    with df show ?thesis by simp
  next
    case (Some k)
    from dropna_row_Some(1,4) [OF Some] Cons.prems obtain y where "kept_Year k = Num y"
      by (auto simp: complete_def)
    then obtain r where "cast_year k = Inr r"
      by (simp add: cast_year_def astype_int_def)
    with df Some show ?thesis by simp
  qed
qed

text \<open>
  When the \<^verbatim>\<open>Year\<close> column is numeric and the \<^verbatim>\<open>Category\<close> column is of
  object type, \<^verbatim>\<open>load_data\<close> returns a frame.
\<close>

lemma load_data_numeric_years:
  assumes "has_str_accessor (map raw_Category raw)"
    and "\<forall>r \<in> set raw. \<exists>y. raw_Year r = Num y \<or> raw_Year r = NaN"
  shows "\<exists>df. load_data parse raw = Inr df"
  using assms(1) numeric_years_cast [OF assms(2)] by (simp add: load_data_def)

section \<open>The claims of the specification\<close>

text \<open>
  Claim C1 (completeness). For every frame of clean records, every year range from
  \<open>y0\<close> to \<open>y1\<close> with \<open>y0 \<le> y1\<close> and every selection of categories without
  repetition, the reindexed table is produced, has \<open>(y1 - y0 + 1) * |C|\<close> rows, its
  (Year, Category) keys are pairwise distinct, and they are exactly the pairs of a year of
  the range and a selected category.
\<close>

theorem C1_completeness:
  assumes "y0 \<le> y1" and "distinct cs"
  shows "\<exists>tbl. filtered_df df y0 y1 cs = Inr tbl
           \<and> int (length tbl) = (y1 - y0 + 1) * int (card (set cs))
           \<and> distinct (map key_of tbl)
           \<and> set (map key_of tbl) = {y0..y1} \<times> set cs"
proof -
  let ?tbl = "map (\<lambda>k. mk_row k (group_weight df k)) (full_index y0 y1 cs)"
  have keys: "map key_of ?tbl = List.product [y0..y1] cs"
    by (simp add: full_index_def comp_def)
  have len: "int (length ?tbl) = (y1 - y0 + 1) * int (card (set cs))"
    using assms by (simp add: full_index_def distinct_card)
  have dist: "distinct (map key_of ?tbl)"
    unfolding keys using assms(2) by (simp add: distinct_product)
  have cover: "set (map key_of ?tbl) = {y0..y1} \<times> set cs"
    unfolding keys by simp
  from len dist cover show ?thesis
    using filtered_df_rows [of df y0 y1 cs] by blast
qed

theorem C1_completeness_witness:
  "\<exists>tbl. filtered_df [\<lparr>Year = 2020, Category = ''Paper'', Weight = 10\<rparr>] 2020 2021 [''Paper'', ''Glass'']
            = Inr tbl
         \<and> int (length tbl) = (2021 - 2020 + 1) * int (card (set [''Paper'', ''Glass'']))
         \<and> distinct (map key_of tbl)
         \<and> set (map key_of tbl) = {2020..2021} \<times> set [''Paper'', ''Glass'']"
proof -
  have h1: "(2020::int) \<le> 2021" by simp
  have h2: "distinct [''Paper'', ''Glass'']" by simp
  show ?thesis by (rule C1_completeness [OF h1 h2])
qed

text \<open>
  Claim C2 (zero fill). A (Year, Category) pair of the selected grid that no clean record
  has is present in the reindexed table, with weight 0.
\<close>

theorem C2_zero_fill:
  assumes "y0 \<le> y" and "y \<le> y1" and "c \<in> set cs"
    and "\<forall>r \<in> set df. \<not> (Year r = y \<and> Category r = c)"
  shows "\<exists>tbl. filtered_df df y0 y1 cs = Inr tbl
           \<and> \<lparr>Year = y, Category = c, Weight = 0\<rparr> \<in> set tbl"
proof -
  have "(y, c) \<notin> set (map key_of df)"
    using assms(4) by (auto simp: key_of_def)
  then have zero: "group_weight df (y, c) = 0"
    by (rule group_weight_absent)
  have "(y, c) \<in> set (full_index y0 y1 cs)"
    using assms(1-3) by (simp add: full_index_def)
  then have "mk_row (y, c) (group_weight df (y, c))
      \<in> set (map (\<lambda>k. mk_row k (group_weight df k)) (full_index y0 y1 cs))"
    by simp
  then have "\<lparr>Year = y, Category = c, Weight = 0\<rparr>
      \<in> set (map (\<lambda>k. mk_row k (group_weight df k)) (full_index y0 y1 cs))"
    by (simp add: zero mk_row_def)
  then show ?thesis
    using filtered_df_rows [of df y0 y1 cs] by blast
qed

theorem C2_zero_fill_witness:
  "\<exists>tbl. filtered_df example_records 2020 2021 [''Paper'', ''Glass''] = Inr tbl
         \<and> \<lparr>Year = 2020, Category = ''Glass'', Weight = 0\<rparr> \<in> set tbl"
proof -
  have h1: "(2020::int) \<le> 2020" and h2: "(2020::int) \<le> 2021" by simp_all
  have h3: "''Glass'' \<in> set [''Paper'', ''Glass'']" by simp
  have h4: "\<forall>r \<in> set example_records. \<not> (Year r = 2020 \<and> Category r = ''Glass'')"
    by (simp add: example_records_def)
  show ?thesis by (rule C2_zero_fill [OF h1 h2 h3 h4])
qed



text \<open>
  Claim C4 (the year cast never fails). The script does not coerce the \<^verbatim>\<open>Year\<close>
  column, so a year that is a text and no integer literal is not turned into the missing
  marker, survives line 14, and stops the cast of line 15 with \<^verbatim>\<open>ValueError\<close>:
  here for a file whose only record has the year \<^verbatim>\<open>abc\<close>.
\<close>

theorem C4_text_year_fails:
  "load_data parse text_year_raw = Inl ValueError"
  by code_simp




text \<open>
  Claim C6 (normalization). Stripping and title-casing send \<^verbatim>\<open>"paper"\<close>,
  \<^verbatim>\<open>" Paper"\<close> and \<^verbatim>\<open>"PAPER "\<close> to the same value
  \<^verbatim>\<open>"Paper"\<close>.
\<close>

theorem C6_normalization:
  "normalize_category (Str ''paper'') = Some ''Paper''
   \<and> normalize_category (Str '' Paper'') = Some ''Paper''
   \<and> normalize_category (Str ''PAPER '') = Some ''Paper''"
  by code_simp

text \<open>
  Claim C7 (empty selection). With no category selected the reindexed table has no rows,
  for every frame of clean records and every year range, and every view receives an empty
  data set; no step fails.
\<close>

theorem C7_empty_selection:
  "filtered_df df y0 y1 [] = Inr []
   \<and> dashboard df y0 y1 [] =
       Inr \<lparr>pie_data = [], bar_data = [], line_data = [], dot_data = [], table_data = []\<rparr>"
  by (simp add: dashboard_def filtered_df_rows full_index_def views_of_def agg_pie_def
      product_Nil_right)

text \<open>
  Claim C8 (reversed range). With a non-empty selection and a minimum year above the
  maximum year, the reindexed table is produced and has no rows.
\<close>

theorem C8_reversed_range:
  assumes "cs \<noteq> []" and "y1 < y0"
  shows "filtered_df df y0 y1 cs = Inr []"
  using assms by (simp add: filtered_df_rows full_index_def)

theorem C8_reversed_range_witness:
  "filtered_df example_records 2021 2020 [''Paper''] = Inr []"
proof -
  have h1: "[''Paper''] \<noteq> []" by simp
  have h2: "(2020::int) < 2021" by simp
  show ?thesis by (rule C8_reversed_range [OF h1 h2])
qed




end
